theory Spec2Isabelle
  imports Main
begin

section \<open>The Selection Manifest: \<^verbatim>\<open>tools.go\<close>\<close>

text \<open>
  The repository holds two declarative files. \<^verbatim>\<open>tools.go\<close> is a Go source file made of a
  build constraint line, a package clause and one import block; \<^verbatim>\<open>go.mod\<close> is the module
  file with one \<^verbatim>\<open>replace\<close> directive and two \<^verbatim>\<open>require\<close> blocks. Both are embedded as
  the data they contain, together with the meaning the go command gives to a build
  constraint, to an import block and to a replace directive.
\<close>

subsection \<open>Build constraints\<close>

text \<open>
  A \<^verbatim>\<open>//go:build\<close> line holds a boolean expression over build tags. A file takes part in
  a build exactly when its expression holds for the tags of that build; a file without a
  constraint line always takes part.
\<close>

datatype build_expr =
    Tag string
  | NotExpr build_expr
  | AndExpr build_expr build_expr
  | OrExpr build_expr build_expr

fun eval_expr :: "string list \<Rightarrow> build_expr \<Rightarrow> bool" where
  "eval_expr tags (Tag t) = (t \<in> set tags)"
| "eval_expr tags (NotExpr x) = (\<not> eval_expr tags x)"
| "eval_expr tags (AndExpr x y) = (eval_expr tags x \<and> eval_expr tags y)"
| "eval_expr tags (OrExpr x y) = (eval_expr tags x \<or> eval_expr tags y)"

subsection \<open>Go source files and their imports\<close>

text \<open>
  An import declaration has an optional name and a path; the name \<^verbatim>\<open>_\<close> makes it a blank
  import, which links the package for its initialisation side effects only.
\<close>

record import_spec =
  imp_name :: "string option"
  imp_path :: string

record go_file =
  build_constraint :: "build_expr option"
  package_name :: string
  import_decls :: "import_spec list"

definition blank :: "string \<Rightarrow> import_spec" where
  "blank p = \<lparr>imp_name = Some ''_'', imp_path = p\<rparr>"

text \<open>\<^verbatim>\<open>tools.go\<close>, line by line: the constraint of line 1, the package clause of line 2
  and the nine blank imports of lines 4 to 12, in file order.\<close>

definition tools_go :: go_file where
  "tools_go = \<lparr>
     build_constraint = Some (Tag ''tools''),
     package_name = ''main'',
     import_decls =
      [blank ''github.com/caddyserver/caddy/v2'',
       blank ''github.com/caddyserver/forwardproxy'',
       blank ''github.com/imgk/caddy-trojan'',
       blank ''github.com/mholt/caddy-l4'',
       blank ''github.com/fvbommel/caddy-combine-ip-ranges'',
       blank ''github.com/LeenHawk/caddy-edgeone-ip'',
       blank ''github.com/monobilisim/caddy-ip-list'',
       blank ''github.com/WeidiDeng/caddy-cloudflare-ip'',
       blank ''github.com/xcaddyplugins/caddy-trusted-cloudfront'']\<rparr>"

definition should_build :: "string list \<Rightarrow> go_file \<Rightarrow> bool" where
  "should_build tags f =
     (case build_constraint f of None \<Rightarrow> True | Some x \<Rightarrow> eval_expr tags x)"

definition import_paths :: "go_file \<Rightarrow> string list" where
  "import_paths f = map imp_path (import_decls f)"

definition blank_imports :: "go_file \<Rightarrow> string list" where
  "blank_imports f = map imp_path (filter (\<lambda>i. imp_name i = Some ''_'') (import_decls f))"

text \<open>The imports a file contributes to a build with the given tags: all of its import
  paths when the file takes part in the build, none otherwise.\<close>

definition file_imports :: "string list \<Rightarrow> go_file \<Rightarrow> string list" where
  "file_imports tags f = (if should_build tags f then import_paths f else [])"

text \<open>The Go files of the repository's only package, and the imports of that package in
  a build: those whose initialisation (registration) is linked into the program.\<close>

definition go_files :: "go_file list" where
  "go_files = [tools_go]"

definition package_imports :: "string list \<Rightarrow> go_file list \<Rightarrow> string list" where
  "package_imports tags fs = concat (map (file_imports tags) fs)"



section \<open>The dependency manifest: \<^verbatim>\<open>go.mod\<close>\<close>

text \<open>A module version is a module path with a version; a require block is a list of
  them, in file order.\<close>

type_synonym module_version = "string \<times> string"

text \<open>The first require block, lines 7 to 27: the direct requirements.\<close>

definition require_direct :: "module_version list" where
  "require_direct =
  [(''github.com/LeenHawk/caddy-edgeone-ip'', ''v0.1.1''),
   (''github.com/WeidiDeng/caddy-cloudflare-ip'', ''v0.0.0-20231130002422-f53b62aa13cb''),
   (''github.com/caddy-dns/tencentcloud'', ''v0.4.3''),
   (''github.com/caddyserver/caddy/v2'', ''v2.10.2''),
   (''github.com/caddyserver/forwardproxy'', ''v0.0.0-20251013200746-bb364cc53204''),
   (''github.com/caddyserver/jsonc-adapter'', ''v0.0.0-20200325004025-825ee096306c''),
   (''github.com/fvbommel/caddy-combine-ip-ranges'', ''v0.0.1''),
   (''github.com/greenpau/caddy-security'', ''v1.1.31''),
   (''github.com/imgk/caddy-trojan'', ''v0.2.10-2''),
   (''github.com/lanrat/caddy-dynamic-remoteip'', ''v0.0.0-20231007025615-f72ed4fc7b9c''),
   (''github.com/mholt/caddy-events-exec'', ''v0.1.0''),
   (''github.com/mholt/caddy-l4'', ''v0.0.0-20251209130418-1a3490ef786a''),
   (''github.com/mholt/caddy-ratelimit'', ''v0.1.0''),
   (''github.com/mholt/caddy-webdav'', ''v0.0.0-20250805175825-7a5c90d8bf90''),
   (''github.com/monobilisim/caddy-ip-list'', ''v0.0.0-20250818180736-cd5c45325ade''),
   (''github.com/okrc/caddy-uploadcert-tencentcloud'', ''v0.1.2''),
   (''github.com/porech/caddy-maxmind-geolocation'', ''v1.0.1''),
   (''github.com/tuzzmaniandevil/caddy-dynamic-clientip'', ''v1.0.5''),
   (''github.com/xcaddyplugins/caddy-trusted-cloudfront'', ''v0.0.0-20240604042247-0a0864e80f1c'')]"

text \<open>The second require block, lines 29 to 180, every line marked \<^verbatim>\<open>// indirect\<close>.\<close>

definition require_indirect :: "module_version list" where
  "require_indirect =
  [(''cel.dev/expr'', ''v0.24.0''),
   (''cloud.google.com/go/auth'', ''v0.16.2''),
   (''cloud.google.com/go/auth/oauth2adapt'', ''v0.2.8''),
   (''cloud.google.com/go/compute/metadata'', ''v0.7.0''),
   (''dario.cat/mergo'', ''v1.0.2''),
   (''filippo.io/edwards25519'', ''v1.1.0''),
   (''github.com/AndreasBriese/bbloom'', ''v0.0.0-20190825152654-46b345b51c96''),
   (''github.com/Azure/go-ntlmssp'', ''v0.0.0-20221128193559-754e69321358''),
   (''github.com/KimMachineGun/automemlimit'', ''v0.7.4''),
   (''github.com/Masterminds/goutils'', ''v1.1.1''),
   (''github.com/Masterminds/semver/v3'', ''v3.3.1''),
   (''github.com/Masterminds/sprig/v3'', ''v3.3.0''),
   (''github.com/Microsoft/go-winio'', ''v0.6.2''),
   (''github.com/antlr4-go/antlr/v4'', ''v4.13.1''),
   (''github.com/aryann/difflib'', ''v0.0.0-20210328193216-ff5ff6dc229b''),
   (''github.com/beevik/etree'', ''v1.5.0''),
   (''github.com/beorn7/perks'', ''v1.0.1''),
   (''github.com/caddyserver/certmagic'', ''v0.25.0''),
   (''github.com/caddyserver/zerossl'', ''v0.1.3''),
   (''github.com/ccoveille/go-safecast'', ''v1.6.1''),
   (''github.com/cespare/xxhash'', ''v1.1.0''),
   (''github.com/cespare/xxhash/v2'', ''v2.3.0''),
   (''github.com/chzyer/readline'', ''v1.5.1''),
   (''github.com/cloudflare/circl'', ''v1.6.1''),
   (''github.com/coreos/go-oidc/v3'', ''v3.14.1''),
   (''github.com/cpuguy83/go-md2man/v2'', ''v2.0.7''),
   (''github.com/crewjam/httperr'', ''v0.2.0''),
   (''github.com/crewjam/saml'', ''v0.4.14''),
   (''github.com/dgraph-io/badger'', ''v1.6.2''),
   (''github.com/dgraph-io/badger/v2'', ''v2.2007.4''),
   (''github.com/dgraph-io/ristretto'', ''v0.2.0''),
   (''github.com/dgryski/go-farm'', ''v0.0.0-20240924180020-3414d57e47da''),
   (''github.com/dustin/go-humanize'', ''v1.0.1''),
   (''github.com/emersion/go-sasl'', ''v0.0.0-20241020182733-b788ff22d5a6''),
   (''github.com/emersion/go-smtp'', ''v0.21.3''),
   (''github.com/felixge/httpsnoop'', ''v1.0.4''),
   (''github.com/fsnotify/fsnotify'', ''v1.9.0''),
   (''github.com/go-asn1-ber/asn1-ber'', ''v1.5.7''),
   (''github.com/go-jose/go-jose/v3'', ''v3.0.4''),
   (''github.com/go-jose/go-jose/v4'', ''v4.1.0''),
   (''github.com/go-ldap/ldap/v3'', ''v3.4.10''),
   (''github.com/go-logr/logr'', ''v1.4.3''),
   (''github.com/go-logr/stdr'', ''v1.2.2''),
   (''github.com/go-sql-driver/mysql'', ''v1.9.2''),
   (''github.com/golang-jwt/jwt/v4'', ''v4.5.2''),
   (''github.com/golang/protobuf'', ''v1.5.4''),
   (''github.com/golang/snappy'', ''v1.0.0''),
   (''github.com/google/btree'', ''v1.1.3''),
   (''github.com/google/cel-go'', ''v0.26.0''),
   (''github.com/google/s2a-go'', ''v0.1.9''),
   (''github.com/google/uuid'', ''v1.6.0''),
   (''github.com/googleapis/enterprise-certificate-proxy'', ''v0.3.6''),
   (''github.com/googleapis/gax-go/v2'', ''v2.14.2''),
   (''github.com/gorilla/websocket'', ''v1.5.3''),
   (''github.com/greenpau/go-authcrunch'', ''v1.1.7''),
   (''github.com/greenpau/versioned'', ''v1.0.30''),
   (''github.com/huandu/xstrings'', ''v1.5.0''),
   (''github.com/imgk/memory-go'', ''v0.2.0''),
   (''github.com/inconshreveable/mousetrap'', ''v1.1.0''),
   (''github.com/jackc/pgpassfile'', ''v1.0.0''),
   (''github.com/jackc/pgservicefile'', ''v0.0.0-20240606120523-5a60cdf6a761''),
   (''github.com/jackc/pgx/v5'', ''v5.7.5''),
   (''github.com/jackc/puddle/v2'', ''v2.2.2''),
   (''github.com/jonboulle/clockwork'', ''v0.5.0''),
   (''github.com/klauspost/compress'', ''v1.18.0''),
   (''github.com/klauspost/cpuid/v2'', ''v2.3.0''),
   (''github.com/libdns/libdns'', ''v1.1.1''),
   (''github.com/libdns/tencentcloud'', ''v1.4.3''),
   (''github.com/manifoldco/promptui'', ''v0.9.0''),
   (''github.com/mastercactapus/proxyprotocol'', ''v0.0.4''),
   (''github.com/mattermost/xml-roundtrip-validator'', ''v0.1.0''),
   (''github.com/mattn/go-colorable'', ''v0.1.14''),
   (''github.com/mattn/go-isatty'', ''v0.0.20''),
   (''github.com/mgutz/ansi'', ''v0.0.0-20200706080929-d51e80ef957d''),
   (''github.com/mholt/acmez/v3'', ''v3.1.4''),
   (''github.com/miekg/dns'', ''v1.1.68''),
   (''github.com/mitchellh/copystructure'', ''v1.2.0''),
   (''github.com/mitchellh/go-ps'', ''v1.0.0''),
   (''github.com/mitchellh/reflectwalk'', ''v1.0.2''),
   (''github.com/muhammadmuzzammil1998/jsonc'', ''v0.0.0-20200303171503-1e787b591db7''),
   (''github.com/munnerz/goautoneg'', ''v0.0.0-20191010083416-a7dc8b61c822''),
   (''github.com/oschwald/maxminddb-golang'', ''v1.13.1''),
   (''github.com/pbnjay/memory'', ''v0.0.0-20210728143218-7b4eea64cf58''),
   (''github.com/pires/go-proxyproto'', ''v0.8.1''),
   (''github.com/pkg/errors'', ''v0.9.1''),
   (''github.com/prometheus/client_golang'', ''v1.23.2''),
   (''github.com/prometheus/client_model'', ''v0.6.2''),
   (''github.com/prometheus/common'', ''v0.67.4''),
   (''github.com/prometheus/procfs'', ''v0.19.2''),
   (''github.com/quic-go/qpack'', ''v0.6.0''),
   (''github.com/quic-go/quic-go'', ''v0.57.1''),
   (''github.com/riobard/go-bloom'', ''v0.0.0-20200614022211-cdc8013cb5b3''),
   (''github.com/rs/xid'', ''v1.6.0''),
   (''github.com/russellhaering/goxmldsig'', ''v1.5.0''),
   (''github.com/russross/blackfriday/v2'', ''v2.1.0''),
   (''github.com/shadowsocks/go-shadowsocks2'', ''v0.1.6-0.20241020092332-e1fe9ea73740''),
   (''github.com/shopspring/decimal'', ''v1.4.0''),
   (''github.com/shurcooL/sanitized_anchor_name'', ''v1.0.0''),
   (''github.com/skip2/go-qrcode'', ''v0.0.0-20200617195104-da1b6568686e''),
   (''github.com/slackhq/nebula'', ''v1.9.7''),
   (''github.com/smallstep/certificates'', ''v0.28.4''),
   (''github.com/smallstep/cli-utils'', ''v0.12.1''),
   (''github.com/smallstep/linkedca'', ''v0.23.0''),
   (''github.com/smallstep/nosql'', ''v0.7.0''),
   (''github.com/smallstep/pkcs7'', ''v0.2.1''),
   (''github.com/smallstep/scep'', ''v0.0.0-20250318231241-a25cabb69492''),
   (''github.com/smallstep/truststore'', ''v0.13.0''),
   (''github.com/spf13/cast'', ''v1.8.0''),
   (''github.com/spf13/cobra'', ''v1.9.1''),
   (''github.com/spf13/pflag'', ''v1.0.7''),
   (''github.com/stoewer/go-strcase'', ''v1.3.0''),
   (''github.com/tailscale/tscert'', ''v0.0.0-20240608151842-d3f834017e53''),
   (''github.com/things-go/go-socks5'', ''v0.1.0''),
   (''github.com/urfave/cli'', ''v1.22.17''),
   (''github.com/zeebo/blake3'', ''v0.2.4''),
   (''go.etcd.io/bbolt'', ''v1.4.0''),
   (''go.opentelemetry.io/auto/sdk'', ''v1.1.0''),
   (''go.opentelemetry.io/contrib/instrumentation/net/http/otelhttp'', ''v0.61.0''),
   (''go.opentelemetry.io/otel'', ''v1.37.0''),
   (''go.opentelemetry.io/otel/metric'', ''v1.37.0''),
   (''go.opentelemetry.io/otel/trace'', ''v1.37.0''),
   (''go.step.sm/crypto'', ''v0.67.0''),
   (''go.uber.org/automaxprocs'', ''v1.6.0''),
   (''go.uber.org/multierr'', ''v1.11.0''),
   (''go.uber.org/zap'', ''v1.27.1''),
   (''go.uber.org/zap/exp'', ''v0.3.0''),
   (''go.yaml.in/yaml/v2'', ''v2.4.3''),
   (''golang.org/x/crypto'', ''v0.45.0''),
   (''golang.org/x/crypto/x509roots/fallback'', ''v0.0.0-20250529171604-18228cd6f13e''),
   (''golang.org/x/exp'', ''v0.0.0-20250530174510-65e920069ea6''),
   (''golang.org/x/mod'', ''v0.30.0''),
   (''golang.org/x/net'', ''v0.47.0''),
   (''golang.org/x/oauth2'', ''v0.32.0''),
   (''golang.org/x/sync'', ''v0.18.0''),
   (''golang.org/x/sys'', ''v0.38.0''),
   (''golang.org/x/term'', ''v0.37.0''),
   (''golang.org/x/text'', ''v0.31.0''),
   (''golang.org/x/time'', ''v0.14.0''),
   (''golang.org/x/tools'', ''v0.39.0''),
   (''golang.zx2c4.com/wintun'', ''v0.0.0-20230126152724-0fa3db229ce2''),
   (''golang.zx2c4.com/wireguard'', ''v0.0.0-20250521234502-f333402bd9cb''),
   (''google.golang.org/api'', ''v0.240.0''),
   (''google.golang.org/genproto/googleapis/api'', ''v0.0.0-20250603155806-513f23925822''),
   (''google.golang.org/genproto/googleapis/rpc'', ''v0.0.0-20250603155806-513f23925822''),
   (''google.golang.org/grpc'', ''v1.73.0''),
   (''google.golang.org/grpc/cmd/protoc-gen-go-grpc'', ''v1.5.1''),
   (''google.golang.org/protobuf'', ''v1.36.10''),
   (''gopkg.in/yaml.v3'', ''v3.0.1''),
   (''gvisor.dev/gvisor'', ''v0.0.0-20250503011706-39ed1f5ac29c''),
   (''howett.net/plist'', ''v1.0.1'')]"

text \<open>A replace directive: the old module path, optionally restricted to one version of
  it, and the module version that stands in for it.\<close>

record replace =
  old_path :: string
  old_version :: "string option"
  new_mod :: module_version

record mod_file =
  module_path :: string
  go_version :: string
  replace_directives :: "replace list"
  require_blocks :: "module_version list list"

definition go_mod :: mod_file where
  "go_mod = \<lparr>
     module_path = ''github.com/ivanphz/my-custom-caddy'',
     go_version = ''1.25.4'',
     replace_directives =
       [\<lparr>old_path = ''github.com/caddyserver/forwardproxy'',
         old_version = None,
         new_mod = (''github.com/klzgrad/forwardproxy'', ''v0.0.0-20250118002110-d62c80d3dd2c'')\<rparr>],
     require_blocks = [require_direct, require_indirect]\<rparr>"

definition requires :: "mod_file \<Rightarrow> module_version list" where
  "requires m = concat (require_blocks m)"

text \<open>
  What a replace directive means to the go command: the module version that stands in
  for a required one. A directive restricted to exactly that version is looked up
  first, then a directive for the path at every version. The consumer that asked for
  the module is no argument of the look-up.
\<close>

fun find_replace :: "replace list \<Rightarrow> string \<Rightarrow> string option \<Rightarrow> module_version option" where
  "find_replace [] p v = None"
| "find_replace (r # rs) p v =
     (if old_path r = p \<and> old_version r = v then Some (new_mod r) else find_replace rs p v)"

definition Replacement :: "mod_file \<Rightarrow> module_version \<Rightarrow> module_version option" where
  "Replacement m mv =
     (case find_replace (replace_directives m) (fst mv) (Some (snd mv)) of
        Some r \<Rightarrow> Some r
      | None \<Rightarrow> find_replace (replace_directives m) (fst mv) None)"

definition resolved :: "mod_file \<Rightarrow> module_version \<Rightarrow> module_version" where
  "resolved m mv = (case Replacement m mv of Some r \<Rightarrow> r | None \<Rightarrow> mv)"




subsection \<open>Requirements of the modules of a build\<close>






section \<open>The manifest and its build tag\<close>

lemma tools_go_imports:
  "import_paths tools_go =
     [''github.com/caddyserver/caddy/v2'',
      ''github.com/caddyserver/forwardproxy'',
      ''github.com/imgk/caddy-trojan'',
      ''github.com/mholt/caddy-l4'',
      ''github.com/fvbommel/caddy-combine-ip-ranges'',
      ''github.com/LeenHawk/caddy-edgeone-ip'',
      ''github.com/monobilisim/caddy-ip-list'',
      ''github.com/WeidiDeng/caddy-cloudflare-ip'',
      ''github.com/xcaddyplugins/caddy-trusted-cloudfront'']"
  by (simp add: import_paths_def tools_go_def blank_def)

lemma tools_go_all_blank: "blank_imports tools_go = import_paths tools_go"
  by (simp add: blank_imports_def import_paths_def tools_go_def blank_def)

lemma should_build_tools: "should_build tags tools_go = (''tools'' \<in> set tags)"
  by (simp add: should_build_def tools_go_def)

lemma package_imports_go_files:
  "package_imports tags go_files =
     (if ''tools'' \<in> set tags then import_paths tools_go else [])"
  by (simp add: package_imports_def go_files_def file_imports_def should_build_tools)

lemma require_direct_paths:
  "map fst require_direct =
     [''github.com/LeenHawk/caddy-edgeone-ip'',
      ''github.com/WeidiDeng/caddy-cloudflare-ip'',
      ''github.com/caddy-dns/tencentcloud'',
      ''github.com/caddyserver/caddy/v2'',
      ''github.com/caddyserver/forwardproxy'',
      ''github.com/caddyserver/jsonc-adapter'',
      ''github.com/fvbommel/caddy-combine-ip-ranges'',
      ''github.com/greenpau/caddy-security'',
      ''github.com/imgk/caddy-trojan'',
      ''github.com/lanrat/caddy-dynamic-remoteip'',
      ''github.com/mholt/caddy-events-exec'',
      ''github.com/mholt/caddy-l4'',
      ''github.com/mholt/caddy-ratelimit'',
      ''github.com/mholt/caddy-webdav'',
      ''github.com/monobilisim/caddy-ip-list'',
      ''github.com/okrc/caddy-uploadcert-tencentcloud'',
      ''github.com/porech/caddy-maxmind-geolocation'',
      ''github.com/tuzzmaniandevil/caddy-dynamic-clientip'',
      ''github.com/xcaddyplugins/caddy-trusted-cloudfront'']"
  by (simp add: require_direct_def)




text \<open>
  C10. The whole manifest stands behind the \<^verbatim>\<open>tools\<close> build constraint: in every build
  whose tags lack \<^verbatim>\<open>tools\<close> the file does not take part, it contributes no import, and
  the package imports none of the nine listed packages; an import of the package is
  there only when the tag is set.
\<close>

theorem tools_tag_gate:
  assumes "''tools'' \<notin> set tags"
  shows "\<not> should_build tags tools_go \<and>
    file_imports tags tools_go = [] \<and>
    package_imports tags go_files = [] \<and>
    filter (\<lambda>p. p \<in> set (package_imports tags go_files)) (blank_imports tools_go) = []"
  using assms
  by (simp add: package_imports_go_files file_imports_def should_build_tools)

theorem tools_tag_gate_witness:
  "''tools'' \<notin> set [''linux'', ''amd64'', ''cgo''] \<and>
   \<not> should_build [''linux'', ''amd64'', ''cgo''] tools_go \<and>
   package_imports [''linux'', ''amd64'', ''cgo''] go_files = []"
proof -
  have t: "''tools'' \<notin> set [''linux'', ''amd64'', ''cgo'']" by simp
  show ?thesis using t tools_tag_gate [OF t] by blast
qed

text \<open>
  C3. No import path occurs twice among the blank imports of \<^verbatim>\<open>tools.go\<close>: the nine
  import declarations are all blank imports and their paths are pairwise different.
\<close>

theorem import_identifiers_unique:
  "distinct (blank_imports tools_go) \<and> length (blank_imports tools_go) = length (import_decls tools_go)"
  by (simp add: tools_go_all_blank tools_go_imports) (simp add: tools_go_def)

section \<open>The require blocks and the replace directive\<close>

lemma requires_go_mod: "requires go_mod = require_direct @ require_indirect"
  by (simp add: requires_def go_mod_def)

lemma require_paths_distinct: "distinct (map fst (require_direct @ require_indirect))"
  by (simp add: require_direct_def require_indirect_def)

lemma klzgrad_not_direct:
  "''github.com/klzgrad/forwardproxy'' \<notin> set (map fst require_direct)"
  by (simp add: require_direct_def)

lemma klzgrad_not_indirect:
  "''github.com/klzgrad/forwardproxy'' \<notin> set (map fst require_indirect)"
  by (simp add: require_indirect_def)

lemma klzgrad_not_required:
  "''github.com/klzgrad/forwardproxy'' \<notin> set (map fst (requires go_mod))"
  using klzgrad_not_direct klzgrad_not_indirect by (simp add: requires_go_mod)

lemma forwardproxy_required:
  "(''github.com/caddyserver/forwardproxy'', ''v0.0.0-20251013200746-bb364cc53204'')
     \<in> set (requires go_mod)"
  by (simp add: requires_go_mod require_direct_def)

lemma forwardproxy_pin:
  "map_of (requires go_mod) ''github.com/caddyserver/forwardproxy'' =
     Some ''v0.0.0-20251013200746-bb364cc53204''"
  using require_paths_distinct forwardproxy_required
  by (simp add: requires_go_mod map_of_is_SomeI del: map_of_append)

lemma Replacement_go_mod:
  "Replacement go_mod (p, v) =
     (if p = ''github.com/caddyserver/forwardproxy''
      then Some (''github.com/klzgrad/forwardproxy'', ''v0.0.0-20250118002110-d62c80d3dd2c'')
      else None)"
  by (simp add: Replacement_def go_mod_def)

lemma resolved_go_mod:
  "resolved go_mod (p, v) =
     (if p = ''github.com/caddyserver/forwardproxy''
      then (''github.com/klzgrad/forwardproxy'', ''v0.0.0-20250118002110-d62c80d3dd2c'')
      else (p, v))"
  by (simp add: resolved_def Replacement_go_mod)

lemma resolved_path:
  "fst (resolved go_mod mv) =
     (if fst mv = ''github.com/caddyserver/forwardproxy''
      then ''github.com/klzgrad/forwardproxy'' else fst mv)"
  by (cases mv) (simp add: resolved_go_mod)

lemma rename_inj_on: "b \<notin> S \<Longrightarrow> inj_on (\<lambda>p. if p = a then b else p) S"
  by (auto simp: inj_on_def)


lemma resolved_paths_distinct: "distinct (map (fst \<circ> resolved go_mod) (requires go_mod))"
proof -
  let ?f = "\<lambda>p. if p = ''github.com/caddyserver/forwardproxy''
                 then ''github.com/klzgrad/forwardproxy'' else p"
  have "map (fst \<circ> resolved go_mod) (requires go_mod) = map ?f (map fst (requires go_mod))"
    by (simp add: resolved_path)
  moreover have "inj_on ?f (set (map fst (requires go_mod)))"
    using klzgrad_not_required by (rule rename_inj_on)
  moreover have "distinct (map fst (requires go_mod))"
    using require_paths_distinct by (simp only: requires_go_mod)
  ultimately show ?thesis
    by (simp only: distinct_map simp_thms)
qed

text \<open>
  C5. Across both require blocks no module path occurs twice, so no module is listed
  with two versions: the 169 required paths are pairwise different.
\<close>

theorem one_version_per_module:
  "distinct (map fst (requires go_mod)) \<and> length (requires go_mod) = 169"
proof -
  have "distinct (map fst (requires go_mod))"
    using require_paths_distinct by (simp only: requires_go_mod)
  moreover have "length (requires go_mod) = 169"
    by (simp add: requires_go_mod require_direct_def require_indirect_def)
  ultimately show ?thesis by (rule conjI)
qed

text \<open>
  C8. Every identifier blank-imported in \<^verbatim>\<open>tools.go\<close> is a module path of the direct
  require block, which pins it to one exact version; the versions are listed in the
  order of the import block.
\<close>

theorem manifest_imports_pinned:
  "set (blank_imports tools_go) \<subseteq> set (map fst require_direct) \<and>
   map (map_of require_direct) (blank_imports tools_go) =
     [Some ''v2.10.2'',
      Some ''v0.0.0-20251013200746-bb364cc53204'',
      Some ''v0.2.10-2'',
      Some ''v0.0.0-20251209130418-1a3490ef786a'',
      Some ''v0.0.1'',
      Some ''v0.1.1'',
      Some ''v0.0.0-20250818180736-cd5c45325ade'',
      Some ''v0.0.0-20231130002422-f53b62aa13cb'',
      Some ''v0.0.0-20240604042247-0a0864e80f1c'']"
proof -
  have "set (blank_imports tools_go) \<subseteq> set (map fst require_direct)"
    unfolding tools_go_all_blank tools_go_imports require_direct_paths by simp
  moreover have "map (map_of require_direct) (blank_imports tools_go) =
     [Some ''v2.10.2'',
      Some ''v0.0.0-20251013200746-bb364cc53204'',
      Some ''v0.2.10-2'',
      Some ''v0.0.0-20251209130418-1a3490ef786a'',
      Some ''v0.0.1'',
      Some ''v0.1.1'',
      Some ''v0.0.0-20250818180736-cd5c45325ade'',
      Some ''v0.0.0-20231130002422-f53b62aa13cb'',
      Some ''v0.0.0-20240604042247-0a0864e80f1c'']"
    by (simp add: tools_go_all_blank tools_go_imports require_direct_def)
  ultimately show ?thesis by (rule conjI)
qed

text \<open>
  C9. The module that the replace directive puts in place,
  \<^verbatim>\<open>github.com/klzgrad/forwardproxy\<close>, is a path of neither require block. Hence
  resolving every requirement through the directive keeps the paths pairwise different:
  no two requirements end at the same source.
\<close>

theorem replacement_source_not_required:
  "map (fst \<circ> new_mod) (replace_directives go_mod) = [''github.com/klzgrad/forwardproxy''] \<and>
   ''github.com/klzgrad/forwardproxy'' \<notin> set (map fst require_direct) \<and>
   ''github.com/klzgrad/forwardproxy'' \<notin> set (map fst require_indirect) \<and>
   distinct (map (fst \<circ> resolved go_mod) (requires go_mod))"
proof -
  have "map (fst \<circ> new_mod) (replace_directives go_mod) = [''github.com/klzgrad/forwardproxy'']"
    by (simp add: go_mod_def)
  with klzgrad_not_direct klzgrad_not_indirect resolved_paths_distinct
  show ?thesis by (intro conjI)
qed



text \<open>
  C2, as the code has it. The require blocks of \<^verbatim>\<open>go.mod\<close> hold the original path
  \<^verbatim>\<open>github.com/caddyserver/forwardproxy\<close>, pinned at its own pseudo-version, which is not
  the revision of the replacement; the replacement path
  \<^verbatim>\<open>github.com/klzgrad/forwardproxy\<close> is pinned by no require line.
\<close>

theorem require_keeps_original_counterexample:
  "map_of (requires go_mod) ''github.com/caddyserver/forwardproxy'' =
     Some ''v0.0.0-20251013200746-bb364cc53204'' \<and>
   map_of (requires go_mod) ''github.com/klzgrad/forwardproxy'' = None \<and>
   map (snd \<circ> new_mod) (replace_directives go_mod) \<noteq> [''v0.0.0-20251013200746-bb364cc53204'']"
proof -
  have "map_of (requires go_mod) ''github.com/klzgrad/forwardproxy'' = None"
    using klzgrad_not_required by (simp add: map_of_eq_None_iff)
  moreover have "map (snd \<circ> new_mod) (replace_directives go_mod)
      \<noteq> [''v0.0.0-20251013200746-bb364cc53204'']"
    by (simp add: go_mod_def)
  ultimately show ?thesis
    using forwardproxy_pin by (intro conjI)
qed

text \<open>
  C2, amended. For the one redirect present, the require block keeps the original
  identifier \<^verbatim>\<open>github.com/caddyserver/forwardproxy\<close> with its own pinned version, and the
  replacement \<^verbatim>\<open>github.com/klzgrad/forwardproxy\<close> with its pinned revision is recorded by
  the replace directive alone; resolved through the directive, the requirement is the
  replacement at that revision. The manifest still imports the package under the
  original identifier, and never under the replacement's.
\<close>

theorem redirect_pinning:
  "(''github.com/caddyserver/forwardproxy'', ''v0.0.0-20251013200746-bb364cc53204'')
     \<in> set (requires go_mod) \<and>
   ''github.com/klzgrad/forwardproxy'' \<notin> set (map fst (requires go_mod)) \<and>
   map new_mod (replace_directives go_mod) =
     [(''github.com/klzgrad/forwardproxy'', ''v0.0.0-20250118002110-d62c80d3dd2c'')] \<and>
   resolved go_mod (''github.com/caddyserver/forwardproxy'', ''v0.0.0-20251013200746-bb364cc53204'') =
     (''github.com/klzgrad/forwardproxy'', ''v0.0.0-20250118002110-d62c80d3dd2c'') \<and>
   ''github.com/caddyserver/forwardproxy'' \<in> set (blank_imports tools_go) \<and>
   ''github.com/klzgrad/forwardproxy'' \<notin> set (blank_imports tools_go)"
proof -
  have "map new_mod (replace_directives go_mod) =
     [(''github.com/klzgrad/forwardproxy'', ''v0.0.0-20250118002110-d62c80d3dd2c'')]"
    by (simp add: go_mod_def)
  moreover have "resolved go_mod
      (''github.com/caddyserver/forwardproxy'', ''v0.0.0-20251013200746-bb364cc53204'') =
     (''github.com/klzgrad/forwardproxy'', ''v0.0.0-20250118002110-d62c80d3dd2c'')"
    by (simp add: resolved_go_mod)
  moreover have "''github.com/caddyserver/forwardproxy'' \<in> set (blank_imports tools_go)"
    and "''github.com/klzgrad/forwardproxy'' \<notin> set (blank_imports tools_go)"
    by (simp_all add: tools_go_all_blank tools_go_imports)
  ultimately show ?thesis
    using forwardproxy_required klzgrad_not_required by (intro conjI)
qed

end
